theory Spec2Isabelle
  imports Complex_Main "HOL-Library.Sublist"
begin

section \<open>Python strings\<close>

text \<open>
  A Python \<open>str\<close> is a sequence of Unicode code points. The formatter looks for the
  rupee sign (U+20B9) and the bullet (U+2022), so a code point is a natural number and
  a string is a list of them. \<open>asc\<close> embeds an ASCII literal.
\<close>

type_synonym cp = nat
type_synonym ustr = "cp list"

definition asc :: "string \<Rightarrow> ustr" where
  "asc s = map of_char s"

subsection \<open>Character classes of \<open>str.isspace\<close>, \<open>\<backslash>s\<close> and \<open>\<backslash>d\<close>\<close>

text \<open>
  \<open>str.strip()\<close> and the class \<open>\<backslash>s\<close> of a \<open>str\<close> pattern share one set of white-space
  code points. The class \<open>\<backslash>d\<close> of a \<open>str\<close> pattern is the Unicode category Nd: blocks of ten
  consecutive code points for the digits 0 to 9 (five such blocks in a row from U+1D7CE);
  the table is the one of Unicode 14.0.
\<close>

definition is_space :: "cp \<Rightarrow> bool" where
  "is_space c =
     (if c < 128 then (9 \<le> c \<and> c \<le> 13) \<or> (28 \<le> c \<and> c \<le> 32)
      else c \<in> set [0x85, 0xA0, 0x1680, 0x2000, 0x2001, 0x2002, 0x2003, 0x2004, 0x2005,
        0x2006, 0x2007, 0x2008, 0x2009, 0x200A, 0x2028, 0x2029, 0x202F, 0x205F, 0x3000])"

definition decimal_blocks :: "cp list" where
  "decimal_blocks =
     [0x660, 0x6F0, 0x7C0, 0x966, 0x9E6, 0xA66, 0xAE6, 0xB66, 0xBE6, 0xC66, 0xCE6, 0xD66,
      0xDE6, 0xE50, 0xED0, 0xF20, 0x1040, 0x1090, 0x17E0, 0x1810, 0x1946, 0x19D0, 0x1A80,
      0x1A90, 0x1B50, 0x1BB0, 0x1C40, 0x1C50, 0xA620, 0xA8D0, 0xA900, 0xA9D0, 0xA9F0,
      0xAA50, 0xABF0, 0xFF10, 0x104A0, 0x10D30, 0x11066, 0x110F0, 0x11136, 0x111D0,
      0x112F0, 0x11450, 0x114D0, 0x11650, 0x116C0, 0x11730, 0x118E0, 0x11950, 0x11C50,
      0x11D50, 0x11DA0, 0x16A60, 0x16AC0, 0x16B50,
      0x1D7CE, 0x1D7D8, 0x1D7E2, 0x1D7EC, 0x1D7F6,
      0x1E140, 0x1E2F0, 0x1E950, 0x1FBF0]"

definition digit_value :: "cp \<Rightarrow> nat option" where
  "digit_value c =
     (if c < 128 then (if 48 \<le> c \<and> c \<le> 57 then Some (c - 48) else None)
      else map_option (\<lambda>b. c - b) (find (\<lambda>b. b \<le> c \<and> c < b + 10) decimal_blocks))"

definition is_digit :: "cp \<Rightarrow> bool" where
  "is_digit c = (digit_value c \<noteq> None)"

subsection \<open>String methods\<close>

definition py_strip :: "ustr \<Rightarrow> ustr" where
  "py_strip s = rev (dropWhile is_space (rev (dropWhile is_space s)))"

text \<open>
  \<open>str.lower()\<close>. The keywords searched in the lowered text are ASCII, so what matters
  is where ASCII letters arise: from \<open>A\<close> to \<open>Z\<close>, from U+0130 (lowered to \<open>i\<close> and
  U+0307) and from U+212A, the Kelvin sign (lowered to \<open>k\<close>). Every other code point
  outside ASCII is lowered to code points outside ASCII; the model leaves it as it is.
\<close>

definition lower_cp :: "cp \<Rightarrow> ustr" where
  "lower_cp c =
     (if 65 \<le> c \<and> c \<le> 90 then [c + 32]
      else if c = 0x130 then [0x69, 0x307]
      else if c = 0x212A then [0x6B]
      else [c])"

definition py_lower :: "ustr \<Rightarrow> ustr" where
  "py_lower s = concat (map lower_cp s)"

text \<open>\<open>sub in s\<close>: \<open>sub\<close> occurs in \<open>s\<close> as a contiguous run.\<close>

fun py_in :: "ustr \<Rightarrow> ustr \<Rightarrow> bool" where
  "py_in sub [] = (sub = [])"
| "py_in sub (x # xs) = (prefix sub (x # xs) \<or> py_in sub xs)"

definition py_endswith :: "ustr \<Rightarrow> ustr \<Rightarrow> bool" where
  "py_endswith s suf = suffix suf s"

text \<open>\<open>sep.join(parts)\<close>.\<close>

fun py_join :: "ustr \<Rightarrow> ustr list \<Rightarrow> ustr" where
  "py_join sep [] = []"
| "py_join sep [p] = p"
| "py_join sep (p # q # ps) = p @ sep @ py_join sep (q # ps)"

text \<open>
  \<open>s.split(sep)\<close> for a separator that is not empty (every separator of the formatter is
  a literal): the pieces between the occurrences of \<open>sep\<close>, found from the left.
  \<open>acc\<close> holds the current piece, reversed.
\<close>

function split_from :: "ustr \<Rightarrow> ustr \<Rightarrow> ustr \<Rightarrow> ustr list" where
  "split_from sep acc s =
     (if s = [] \<or> sep = [] then [rev acc @ s]
      else if prefix sep s then rev acc # split_from sep [] (drop (length sep) s)
      else split_from sep (hd s # acc) (tl s))"
  by pat_completeness auto
termination
  by (relation "measure (\<lambda>(sep, acc, s). length s)") auto

declare split_from.simps [simp del]

definition py_split :: "ustr \<Rightarrow> ustr \<Rightarrow> ustr list" where
  "py_split s sep = split_from sep [] s"

text \<open>
  \<open>s.replace(old, new)\<close>: the occurrences of \<open>old\<close> that do not overlap, from the left.
  With an empty \<open>old\<close> Python puts \<open>new\<close> before every code point and at the end.
\<close>

function py_replace :: "ustr \<Rightarrow> ustr \<Rightarrow> ustr \<Rightarrow> ustr" where
  "py_replace s old new =
     (if old = [] then new @ concat (map (\<lambda>c. c # new) s)
      else if s = [] then []
      else if prefix old s then new @ py_replace (drop (length old) s) old new
      else hd s # py_replace (tl s) old new)"
  by pat_completeness auto
termination
  by (relation "measure (\<lambda>(s, old, new). length s)") auto

declare py_replace.simps [simp del]

text \<open>\<open>str(i)\<close> for an index \<open>i\<close> of \<open>enumerate\<close>: decimal digits, no sign.\<close>

function py_str :: "nat \<Rightarrow> ustr" where
  "py_str n = (if n < 10 then [48 + n] else py_str (n div 10) @ [48 + n mod 10])"
  by pat_completeness auto
termination
  by (relation "measure id") auto

declare py_str.simps [simp del]

section \<open>Regular expressions\<close>

text \<open>
  Every pattern of the formatter is a sequence of character classes, each taken once or
  under \<open>?\<close>, \<open>*\<close> or \<open>+\<close>. The matcher is the backtracking matcher of Python's \<open>re\<close>
  restricted to such patterns: a quantifier is greedy, and gives characters back, the
  last one first, when the rest of the pattern fails. A successful match returns the
  piece of the text each class consumed and the text that follows the match.
\<close>

datatype quant = One | Opt | Star | Plus

type_synonym pattern = "((cp \<Rightarrow> bool) \<times> quant) list"

definition piece :: "ustr \<Rightarrow> (ustr list \<times> ustr) option \<Rightarrow> (ustr list \<times> ustr) option" where
  "piece g m = (case m of None \<Rightarrow> None | Some (gs, rest) \<Rightarrow> Some (g # gs, rest))"

definition grow :: "cp \<Rightarrow> (ustr list \<times> ustr) option \<Rightarrow> (ustr list \<times> ustr) option" where
  "grow x m = (case m of Some (g # gs, rest) \<Rightarrow> Some ((x # g) # gs, rest) | _ \<Rightarrow> None)"

fun match_here :: "pattern \<Rightarrow> ustr \<Rightarrow> (ustr list \<times> ustr) option" where
  "match_here [] s = Some ([], s)"
| "match_here ((p, One) # r) [] = None"
| "match_here ((p, One) # r) (x # xs) =
     (if p x then piece [x] (match_here r xs) else None)"
| "match_here ((p, Opt) # r) [] = piece [] (match_here r [])"
| "match_here ((p, Opt) # r) (x # xs) =
     (if p x then
        (case piece [x] (match_here r xs) of
           Some m \<Rightarrow> Some m
         | None \<Rightarrow> piece [] (match_here r (x # xs)))
      else piece [] (match_here r (x # xs)))"
| "match_here ((p, Star) # r) [] = piece [] (match_here r [])"
| "match_here ((p, Star) # r) (x # xs) =
     (if p x then
        (case grow x (match_here ((p, Star) # r) xs) of
           Some m \<Rightarrow> Some m
         | None \<Rightarrow> piece [] (match_here r (x # xs)))
      else piece [] (match_here r (x # xs)))"
| "match_here ((p, Plus) # r) [] = None"
| "match_here ((p, Plus) # r) (x # xs) =
     (if p x then grow x (match_here ((p, Star) # r) xs) else None)"

text \<open>
  \<open>re.search\<close>: the match at the leftmost position that has one, with the text before
  it. \<open>re_search_bol\<close> is the search for a pattern that starts with \<open>^\<close> (no flag
  \<open>MULTILINE\<close> is used): only the start of the text is tried.
\<close>

fun re_search :: "pattern \<Rightarrow> ustr \<Rightarrow> (ustr \<times> ustr list \<times> ustr) option" where
  "re_search pat [] =
     (case match_here pat [] of None \<Rightarrow> None | Some (gs, rest) \<Rightarrow> Some ([], gs, rest))"
| "re_search pat (x # xs) =
     (case match_here pat (x # xs) of
        Some (gs, rest) \<Rightarrow> Some ([], gs, rest)
      | None \<Rightarrow>
          (case re_search pat xs of
             None \<Rightarrow> None
           | Some (before, gs, rest) \<Rightarrow> Some (x # before, gs, rest)))"

definition re_search_bol :: "pattern \<Rightarrow> ustr \<Rightarrow> (ustr list \<times> ustr) option" where
  "re_search_bol pat s = match_here pat s"

lemma piece_SomeD:
  "piece g m = Some (gs, rest) \<Longrightarrow> \<exists>gs'. gs = g # gs' \<and> m = Some (gs', rest)"
  by (auto simp: piece_def split: option.splits)

lemma grow_SomeD:
  "grow x m = Some (gs, rest) \<Longrightarrow>
     \<exists>g gs'. gs = (x # g) # gs' \<and> m = Some (g # gs', rest)"
  by (auto simp: grow_def split: option.splits list.splits)

lemma match_here_decomp:
  "match_here pat s = Some (gs, rest) \<Longrightarrow> s = concat gs @ rest"
proof (induction pat s arbitrary: gs rest rule: match_here.induct)
  case (5 p r x xs)
  then show ?case
    by (auto split: if_splits option.splits dest!: piece_SomeD)
next
  case (7 p r x xs)
  then show ?case
    by (auto split: if_splits option.splits dest!: piece_SomeD grow_SomeD)
qed (auto split: if_splits dest!: piece_SomeD grow_SomeD)

lemma re_search_decomp:
  "re_search pat s = Some (before, gs, rest) \<Longrightarrow> s = before @ concat gs @ rest"
  by (induction s arbitrary: before)
    (auto split: option.splits dest: match_here_decomp)

text \<open>
  \<open>re.findall\<close> and \<open>re.sub\<close>: the matches that do not overlap, from the left, each
  search resuming where the previous match ended. No pattern of the formatter given to
  them matches the empty string; the scan stops at an empty match.
\<close>

function re_findall :: "pattern \<Rightarrow> ustr \<Rightarrow> ustr list list" where
  "re_findall pat s =
     (case re_search pat s of
        None \<Rightarrow> []
      | Some (before, gs, rest) \<Rightarrow>
          if concat gs = [] then [gs] else gs # re_findall pat rest)"
  by pat_completeness auto
termination
  by (relation "measure (\<lambda>(pat, s). length s)") (auto dest!: re_search_decomp)

declare re_findall.simps [simp del]

function re_sub :: "pattern \<Rightarrow> ustr \<Rightarrow> ustr \<Rightarrow> ustr" where
  "re_sub pat repl s =
     (case re_search pat s of
        None \<Rightarrow> s
      | Some (before, gs, rest) \<Rightarrow>
          if concat gs = [] then before @ repl @ rest
          else before @ repl @ re_sub pat repl rest)"
  by pat_completeness auto
termination
  by (relation "measure (\<lambda>(pat, repl, s). length s)") (auto dest!: re_search_decomp)

declare re_sub.simps [simp del]

text \<open>\<open>re.sub\<close> for a pattern that starts with \<open>^\<close>: at most the match at the start.\<close>

definition re_sub_bol :: "pattern \<Rightarrow> ustr \<Rightarrow> ustr \<Rightarrow> ustr" where
  "re_sub_bol pat repl s =
     (case re_search_bol pat s of None \<Rightarrow> s | Some (gs, rest) \<Rightarrow> repl @ rest)"

section \<open>Numbers: \<open>float()\<close>, \<open>int()\<close> and \<open>%\<close>\<close>

text \<open>
  \<open>float(s)\<close> is modelled on the decimal numerals without sign or exponent, which is what
  the rating pattern hands to it: digits, at most one period, digits, with a digit
  somewhere. Any other string gives \<open>ValueError\<close> here. The numeral is rounded to the
  nearest IEEE 754 binary64 value, a tie to the even significand; a result of \<open>2^1024\<close>
  or more is infinity. A finite float is the rational number it stands for.
\<close>

datatype error = ValueError | OverflowError

datatype pyfloat = Finite rat | Infinity

fun decimal_value :: "ustr \<Rightarrow> int \<Rightarrow> int option" where
  "decimal_value [] acc = Some acc"
| "decimal_value (c # cs) acc =
     (case digit_value c of
        None \<Rightarrow> None
      | Some d \<Rightarrow> decimal_value cs (10 * acc + int d))"

function bit_length :: "int \<Rightarrow> nat" where
  "bit_length n = (if n \<le> 0 then 0 else Suc (bit_length (n div 2)))"
  by pat_completeness auto
termination
  by (relation "measure nat") auto

declare bit_length.simps [simp del]

definition pow2 :: "int \<Rightarrow> rat" where
  "pow2 e = (if 0 \<le> e then 2 ^ nat e else 1 / 2 ^ nat (- e))"

definition round_half_even :: "rat \<Rightarrow> int" where
  "round_half_even q =
     (let f = \<lfloor>q\<rfloor>; r = q - of_int f
      in if r < 1 / 2 then f else if 1 / 2 < r then f + 1 else if even f then f else f + 1)"

text \<open>\<open>round_double n d\<close> is the float nearest to \<open>n / d\<close>, for \<open>0 \<le> n\<close> and \<open>0 < d\<close>.\<close>

definition round_double :: "int \<Rightarrow> int \<Rightarrow> pyfloat" where
  "round_double n d =
     (if n = 0 then Finite 0
      else
        let v = of_int n / of_int d;
            e0 = int (bit_length n) - int (bit_length d);
            e = (if pow2 e0 \<le> v then e0 else e0 - 1);
            qe = max (e - 52) (- 1074);
            r = of_int (round_half_even (v / pow2 qe)) * pow2 qe
        in if pow2 1024 \<le> r then Infinity else Finite r)"

definition py_float :: "ustr \<Rightarrow> error + pyfloat" where
  "py_float s =
     (let ip = takeWhile (\<lambda>c. c \<noteq> 0x2E) s;
          fp = drop 1 (dropWhile (\<lambda>c. c \<noteq> 0x2E) s)
      in if ip = [] \<and> fp = [] then Inl ValueError
         else
           (case (decimal_value ip 0, decimal_value fp 0) of
              (Some a, Some b) \<Rightarrow>
                Inr (round_double (a * 10 ^ length fp + b) (10 ^ length fp))
            | _ \<Rightarrow> Inl ValueError))"

text \<open>\<open>int(x)\<close> truncates towards zero and raises \<open>OverflowError\<close> on infinity.\<close>

definition py_int :: "pyfloat \<Rightarrow> error + int" where
  "py_int x =
     (case x of
        Infinity \<Rightarrow> Inl OverflowError
      | Finite q \<Rightarrow> Inr (if 0 \<le> q then \<lfloor>q\<rfloor> else \<lceil>q\<rceil>))"

text \<open>\<open>x % 1 >= 0.5\<close>; on infinity \<open>x % 1\<close> is not a number and the test is false.\<close>

definition frac_ge_half :: "pyfloat \<Rightarrow> bool" where
  "frac_ge_half x = (case x of Infinity \<Rightarrow> False | Finite q \<Rightarrow> 1 / 2 \<le> q - of_int \<lfloor>q\<rfloor>)"

section \<open>The response formatter\<close>

text \<open>
  The methods of \<open>ResponseFormatter\<close> in \<open>src/response_formatter.py\<close>, in the order of the
  file. The formatter holds two constant keyword lists and no other state, so every
  method is a function of its arguments. A method that can raise returns
  \<open>error + ustr\<close>. Writing to the log is not modelled.
\<close>

definition one_of :: "ustr \<Rightarrow> cp \<Rightarrow> bool" where
  "one_of cs c = (c \<in> set cs)"

definition none_of :: "ustr \<Rightarrow> cp \<Rightarrow> bool" where
  "none_of cs c = (c \<notin> set cs)"

definition bullet_chars :: ustr where
  "bullet_chars = [0x2D, 0x2022, 0x2A]"

definition currency_chars :: ustr where
  "currency_chars = [0x20B9, 0x24]"

definition product_keywords :: "ustr list" where
  "product_keywords =
     map asc [''smartphone'', ''laptop'', ''headphone'', ''phone'', ''computer'',
       ''tablet'', ''earphone'', ''speaker'', ''camera'', ''watch'']"

definition brand_keywords :: "ustr list" where
  "brand_keywords =
     map asc [''samsung'', ''apple'', ''xiaomi'', ''realme'', ''oneplus'', ''google'',
       ''sony'', ''lg'', ''huawei'', ''oppo'', ''vivo'', ''motorola'']"

definition recommendation_words :: "ustr list" where
  "recommendation_words =
     map asc [''recommend'', ''suggest'', ''best'', ''top'', ''good'', ''excellent'',
       ''great'']"

subsection \<open>The patterns\<close>

text \<open>\<open>\<backslash>s+\<close>\<close>

definition pat_spaces :: pattern where
  "pat_spaces = [(is_space, Plus)]"

text \<open>\<open>\<backslash>d+\<backslash>.\<close>\<close>

definition pat_number_dot :: pattern where
  "pat_number_dot = [(is_digit, Plus), (one_of (asc ''.''), One)]"

text \<open>\<open>[-\<bullet>*]\<backslash>s\<close>, also behind \<open>^\<close>\<close>

definition pat_bullet_space :: pattern where
  "pat_bullet_space = [(one_of bullet_chars, One), (is_space, One)]"

text \<open>\<open>(\<backslash>d+)\<backslash>.\<backslash>s*([^.\<backslash>n]+)\<close>: group 1 is piece 1, group 2 is piece 4\<close>

definition pat_item :: pattern where
  "pat_item =
     [(is_digit, Plus), (one_of (asc ''.''), One), (is_space, Star),
      (none_of (asc ''.\<newline>''), Plus)]"

text \<open>\<open>[R$]\<backslash>s*[\<backslash>d,]+\<close>, where \<open>R\<close> stands for the rupee sign\<close>

definition pat_price :: pattern where
  "pat_price =
     [(one_of currency_chars, One), (is_space, Star),
      (\<lambda>c. is_digit c \<or> one_of (asc '','') c, Plus)]"

text \<open>\<open>(\<backslash>d+\<backslash>.?\<backslash>d*)/5\<close>: group 1 is pieces 1 to 3\<close>

definition pat_rating :: pattern where
  "pat_rating =
     [(is_digit, Plus), (one_of (asc ''.''), Opt), (is_digit, Star),
      (one_of (asc ''/''), One), (one_of (asc ''5''), One)]"

text \<open>\<open>^\<backslash>d+\<backslash>.\<backslash>s\<close>\<close>

definition pat_number_dot_space :: pattern where
  "pat_number_dot_space = [(is_digit, Plus), (one_of (asc ''.''), One), (is_space, One)]"

text \<open>\<open>^[-\<bullet>*]\<backslash>s*\<close>\<close>

definition pat_bullet_spaces :: pattern where
  "pat_bullet_spaces = [(one_of bullet_chars, One), (is_space, Star)]"

text \<open>\<open>^\<backslash>d+\<backslash>.\<backslash>s*\<close>\<close>

definition pat_number_dot_spaces :: pattern where
  "pat_number_dot_spaces = [(is_digit, Plus), (one_of (asc ''.''), One), (is_space, Star)]"

subsection \<open>\<open>_clean_response\<close>\<close>

definition clean_response :: "ustr \<Rightarrow> ustr" where
  "clean_response response =
     (let r1 = re_sub pat_spaces (asc '' '') (py_strip response);
          r2 = py_replace r1 (asc ''**'') [];
          r3 = py_replace r2 (asc ''*'') []
      in r3)"

subsection \<open>\<open>_is_product_recommendation\<close>\<close>

definition has_numbered_list :: "ustr \<Rightarrow> bool" where
  "has_numbered_list response = (re_search pat_number_dot response \<noteq> None)"

definition has_bullet_points :: "ustr \<Rightarrow> bool" where
  "has_bullet_points response = (re_search pat_bullet_space response \<noteq> None)"

definition is_product_recommendation :: "ustr \<Rightarrow> bool" where
  "is_product_recommendation response =
     (let response_lower = py_lower response;
          has_product_keywords = list_ex (\<lambda>keyword. py_in keyword response_lower) product_keywords;
          has_brand_keywords = list_ex (\<lambda>brand. py_in brand response_lower) brand_keywords;
          has_recommendation_words =
            list_ex (\<lambda>word. py_in word response_lower) recommendation_words
      in (has_product_keywords \<or> has_brand_keywords) \<and>
         (has_recommendation_words \<or> has_numbered_list response \<or> has_bullet_points response))"

subsection \<open>\<open>_extract_products\<close>\<close>

record product =
  name :: ustr
  price :: ustr
  rating :: ustr
  description :: ustr

text \<open>
  \<open>content.split(' - ')[0]\<close>: \<open>split\<close> returns at least one piece (lemma
  \<open>split_from_not_Nil\<close> below), so the index 0 is in range.
\<close>

definition extract_product :: "ustr \<Rightarrow> product option" where
  "extract_product content =
     (let product_name = py_strip (hd (py_split content (asc '' - '')))
      in if product_name \<noteq> [] then
           Some \<lparr>name = product_name,
             price = (case re_search pat_price content of
                        None \<Rightarrow> []
                      | Some (before, gs, rest) \<Rightarrow> concat gs),
             rating = (case re_search pat_rating content of
                         None \<Rightarrow> []
                       | Some (before, gs, rest) \<Rightarrow> concat (take 3 gs)),
             description = py_strip content\<rparr>
         else None)"

text \<open>
  The loop over \<open>re.findall\<close>: a match is the four pieces of \<open>pat_item\<close>, and \<open>content\<close>
  is the last of them.
\<close>

definition extract_products :: "ustr \<Rightarrow> product list" where
  "extract_products response =
     List.map_filter (\<lambda>gs. extract_product (concat (drop 3 gs))) (re_findall pat_item response)"

subsection \<open>\<open>_get_recommendation_intro\<close>\<close>

text \<open>The loop over the sentences, with its \<open>break\<close>.\<close>

fun intro_parts :: "ustr list \<Rightarrow> ustr list" where
  "intro_parts [] = []"
| "intro_parts (sentence # sentences) =
     (if re_search pat_number_dot sentence \<noteq> None then []
      else py_strip sentence # intro_parts sentences)"

definition default_intro :: ustr where
  "default_intro = asc ''Here are some product recommendations based on your query:''"

definition get_recommendation_intro :: "ustr \<Rightarrow> ustr" where
  "get_recommendation_intro response =
     (let sentences = py_split response (asc ''.'');
          intro = py_strip (py_join (asc ''. '') (intro_parts sentences));
          intro' = (if intro \<noteq> [] \<and> \<not> py_endswith intro (asc ''.'')
                    then intro @ asc ''.'' else intro)
      in if intro' \<noteq> [] then intro' else default_intro)"

subsection \<open>\<open>_create_product_cards\<close>\<close>

definition full_star :: ustr where
  \<open>full_star = asc ''<i class='fas fa-star stars'></i>''\<close>

definition half_star :: ustr where
  \<open>half_star = asc ''<i class='fas fa-star-half-alt stars'></i>''\<close>

text \<open>
  The star markup of one product (the first statements of the loop body). \<open>range(n)\<close>
  is empty for \<open>n \<le> 0\<close>.
\<close>

definition stars_html :: "ustr \<Rightarrow> error + ustr" where
  "stars_html r =
     (if r \<noteq> [] then
        (case py_float r of
           Inl e \<Rightarrow> Inl e
         | Inr rating_num \<Rightarrow>
             (case py_int rating_num of
                Inl e \<Rightarrow> Inl e
              | Inr n \<Rightarrow>
                  Inr (concat (replicate (nat n) full_star) @
                       (if frac_ge_half rating_num then half_star else []))))
      else Inr [])"

definition product_item :: "nat \<Rightarrow> product \<Rightarrow> error + ustr" where
  \<open>product_item i p =
     (case stars_html (rating p) of
        Inl e \<Rightarrow> Inl e
      | Inr stars \<Rightarrow>
          Inr (asc ''\<newline>'' @
               asc ''                <div class="product-item">\<newline>'' @
               asc ''                    <div class="product-name">\<newline>'' @
               asc ''                        <i class="fas fa-mobile-alt"></i>\<newline>'' @
               asc ''                        <strong>'' @ py_str i @ asc ''. '' @ name p @
               asc ''</strong>\<newline>'' @
               asc ''                    </div>\<newline>'' @
               asc ''                    <div class="product-description">\<newline>'' @
               asc ''                        '' @ description p @
               asc ''\<newline>'' @
               asc ''                    </div>\<newline>'' @
               asc ''                    '' @
               (if price p \<noteq> [] then
                  asc ''<div class="product-price">'' @ price p @ asc ''</div>''
                else []) @
               asc ''\<newline>'' @
               asc ''                    '' @
               (if rating p \<noteq> [] then
                  asc ''<div class="product-rating"><span class="stars">'' @ stars @
                  asc ''</span> <span>'' @ rating p @ asc ''/5</span></div>''
                else []) @
               asc ''\<newline>'' @
               asc ''                </div>\<newline>'' @
               asc ''            ''))\<close>

text \<open>The loop over \<open>enumerate(products, 1)\<close>; the first error ends it.\<close>

fun product_items :: "nat \<Rightarrow> product list \<Rightarrow> error + ustr" where
  "product_items i [] = Inr []"
| "product_items i (p # ps) =
     (case product_item i p of
        Inl e \<Rightarrow> Inl e
      | Inr h \<Rightarrow>
          (case product_items (Suc i) ps of
             Inl e \<Rightarrow> Inl e
           | Inr hs \<Rightarrow> Inr (h @ hs)))"

definition cards_head :: "ustr \<Rightarrow> ustr" where
  \<open>cards_head intro =
     asc ''\<newline>'' @
     asc ''        <div class="product-recommendation">\<newline>'' @
     asc ''            <h4><i class="fas fa-star"></i>Product Recommendations</h4>\<newline>'' @
     asc ''            <p class="recommendation-intro">'' @ intro @
     asc ''</p>\<newline>'' @
     asc ''            <div class="product-list">\<newline>'' @
     asc ''        ''\<close>

definition cards_tail :: ustr where
  \<open>cards_tail =
     asc ''\<newline>'' @
     asc ''            </div>\<newline>'' @
     asc ''            <div class="disclaimer">\<newline>'' @
     asc ''                <i class="fas fa-info-circle"></i>\<newline>'' @
     asc ''                Recommendations are based on available product data and reviews.\<newline>'' @
     asc ''            </div>\<newline>'' @
     asc ''        </div>\<newline>'' @
     asc ''        ''\<close>

definition create_product_cards :: "product list \<Rightarrow> ustr \<Rightarrow> error + ustr" where
  "create_product_cards products original_response =
     (case product_items 1 products of
        Inl e \<Rightarrow> Inl e
      | Inr items \<Rightarrow>
          Inr (cards_head (get_recommendation_intro original_response) @ items @ cards_tail))"

subsection \<open>\<open>_format_list\<close> and \<open>_format_general_response\<close>\<close>

definition format_list_line :: "ustr \<Rightarrow> ustr" where
  \<open>format_list_line l =
     (let line = py_strip l in
      if line = [] then []
      else
        let line1 = re_sub_bol pat_bullet_spaces [] line;
            line2 = re_sub_bol pat_number_dot_spaces [] line1
        in if line2 \<noteq> [] then asc ''<li class="response-list-item">'' @ line2 @ asc ''</li>''
           else [])\<close>

definition format_list :: "ustr \<Rightarrow> ustr" where
  \<open>format_list text =
     asc ''<ul class="response-list">'' @
     concat (map format_list_line (py_split text (asc ''\<newline>''))) @
     asc ''</ul>''\<close>

definition format_paragraph :: "ustr \<Rightarrow> ustr" where
  \<open>format_paragraph p =
     (let paragraph = py_strip p in
      if paragraph = [] then []
      else if re_search_bol pat_bullet_space paragraph \<noteq> None \<or>
              re_search_bol pat_number_dot_space paragraph \<noteq> None
      then format_list paragraph
      else asc ''<p class="response-paragraph">'' @ paragraph @ asc ''</p>'')\<close>

definition format_general_response :: "ustr \<Rightarrow> ustr" where
  \<open>format_general_response response =
     asc ''<div class="general-response">'' @
     concat (map format_paragraph (py_split response (asc ''\<newline>\<newline>''))) @
     asc ''</div>''\<close>

subsection \<open>\<open>_format_product_recommendation\<close>\<close>

definition format_product_recommendation :: "ustr \<Rightarrow> error + ustr" where
  "format_product_recommendation response =
     (let products = extract_products response
      in if products \<noteq> [] then create_product_cards products response
         else Inr (format_general_response response))"

subsection \<open>\<open>_format_fallback_response\<close> and \<open>format_response\<close>\<close>

definition format_fallback_response :: "ustr \<Rightarrow> ustr" where
  \<open>format_fallback_response response =
     asc ''\<newline>'' @
     asc ''        <div class="general-response">\<newline>'' @
     asc ''            <p class="response-paragraph">'' @ response @
     asc ''</p>\<newline>'' @
     asc ''        </div>\<newline>'' @
     asc ''        ''\<close>

text \<open>The body of the \<open>try\<close> statement.\<close>

definition format_body :: "ustr \<Rightarrow> error + ustr" where
  "format_body response =
     (let cleaned_response = clean_response response
      in if is_product_recommendation cleaned_response
         then format_product_recommendation cleaned_response
         else Inr (format_general_response cleaned_response))"

text \<open>
  \<open>format_response\<close>: \<open>except Exception\<close> takes every error of the body
  (\<open>ValueError\<close> and \<open>OverflowError\<close> are subclasses of \<open>Exception\<close>) and returns the
  fallback markup of the argument. The result keeps the type of a call that may raise.
\<close>

definition format_response :: "ustr \<Rightarrow> error + ustr" where
  "format_response response =
     (case format_body response of
        Inr html \<Rightarrow> Inr html
      | Inl e \<Rightarrow> Inr (format_fallback_response response))"

definition format_llm_response :: "ustr \<Rightarrow> error + ustr" where
  "format_llm_response response = format_response response"

subsection \<open>The bullet detector as the specification words it\<close>

text \<open>
  The specification's bullet-list pattern: at least one line (the text split at
  newlines) begins with a dash, a bullet or an asterisk followed by white space.
\<close>

definition spec_bullet_line :: "ustr \<Rightarrow> bool" where
  "spec_bullet_line s =
     list_ex (\<lambda>l. re_search_bol pat_bullet_space l \<noteq> None) (py_split s (asc ''\<newline>''))"

section \<open>Facts about the matcher\<close>

text \<open>
  \<open>adjacent P Q s\<close>: somewhere in \<open>s\<close> a code point of class \<open>P\<close> is followed at once by
  one of class \<open>Q\<close>. The searches for \<open>P Q\<close> and for \<open>P+ Q\<close> succeed exactly on such texts.
\<close>

lemma match_here_length:
  "match_here pat s = Some (gs, rest) \<Longrightarrow> length gs = length pat"
proof (induction pat s arbitrary: gs rest rule: match_here.induct)
  case (5 p r x xs)
  then show ?case
    by (auto split: if_splits option.splits dest!: piece_SomeD)
next
  case (7 p r x xs)
  then show ?case
    by (auto split: if_splits option.splits dest!: piece_SomeD grow_SomeD)
qed (auto split: if_splits dest!: piece_SomeD grow_SomeD)

fun adjacent :: "(cp \<Rightarrow> bool) \<Rightarrow> (cp \<Rightarrow> bool) \<Rightarrow> ustr \<Rightarrow> bool" where
  "adjacent P Q (x # y # r) = ((P x \<and> Q y) \<or> adjacent P Q (y # r))"
| "adjacent P Q [x] = False"
| "adjacent P Q [] = False"

lemma adjacent_iff:
  "adjacent P Q s \<longleftrightarrow> (\<exists>u x y v. s = u @ x # y # v \<and> P x \<and> Q y)"
proof (induction P Q s rule: adjacent.induct)
  case (1 P Q x y r)
  show ?case
  proof
    assume "adjacent P Q (x # y # r)"
    then consider "P x \<and> Q y" | "adjacent P Q (y # r)" by auto
    then show "\<exists>u a b v. x # y # r = u @ a # b # v \<and> P a \<and> Q b"
    proof cases
      case 1
      then have "x # y # r = [] @ x # y # r \<and> P x \<and> Q y" by simp
      then show ?thesis by blast
    next
      case 2
      with 1 obtain u a b v where "y # r = u @ a # b # v" "P a" "Q b" by blast
      then have "x # y # r = (x # u) @ a # b # v \<and> P a \<and> Q b" by simp
      then show ?thesis by blast
    qed
  next
    assume "\<exists>u a b v. x # y # r = u @ a # b # v \<and> P a \<and> Q b"
    then obtain u a b v where e: "x # y # r = u @ a # b # v" and ab: "P a" "Q b" by blast
    show "adjacent P Q (x # y # r)"
    proof (cases u)
      case Nil
      with e ab show ?thesis by simp
    next
      case (Cons c u')
      with e have "y # r = u' @ a # b # v" by simp
      with ab 1 have "adjacent P Q (y # r)" by blast
      then show ?thesis by simp
    qed
  qed
next
  case (2 P Q x)
  show ?case by (auto simp: Cons_eq_append_conv)
next
  case (3 P Q)
  show ?case by simp
qed

lemma match_one_one:
  "match_here [(P, One), (Q, One)] (x # y # r) \<noteq> None \<longleftrightarrow> P x \<and> Q y"
  by (simp add: piece_def)

lemma search_one_one:
  "re_search [(P, One), (Q, One)] s \<noteq> None \<longleftrightarrow> adjacent P Q s"
proof (induction P Q s rule: adjacent.induct)
  case (1 P Q x y r)
  show ?case
  proof (cases "match_here [(P, One), (Q, One)] (x # y # r)")
    case None
    with match_one_one[of P Q x y r] have "\<not> (P x \<and> Q y)" by simp
    with None 1 show ?thesis by (auto simp del: match_here.simps split: option.splits)
  next
    case (Some a)
    with match_one_one[of P Q x y r] have "P x \<and> Q y" by simp
    with Some show ?thesis by (auto simp del: match_here.simps split: prod.splits)
  qed
next
  case (2 P Q x) show ?case by (simp add: piece_def)
next
  case (3 P Q) show ?case by simp
qed

fun run_then :: "(cp \<Rightarrow> bool) \<Rightarrow> (cp \<Rightarrow> bool) \<Rightarrow> ustr \<Rightarrow> bool" where
  "run_then P Q [] = False"
| "run_then P Q (x # xs) = ((P x \<and> run_then P Q xs) \<or> Q x)"

lemma match_star_one:
  "match_here [(P, Star), (Q, One)] s \<noteq> None \<longleftrightarrow> run_then P Q s"
proof (induction s)
  case Nil show ?case by (simp add: piece_def)
next
  case (Cons x xs)
  have g: "grow x m \<noteq> None \<longleftrightarrow> m \<noteq> None" if "m = match_here [(P, Star), (Q, One)] xs" for m
  proof (cases m)
    case None then show ?thesis by (simp add: grow_def)
  next
    case (Some a)
    obtain gs rest where a: "a = (gs, rest)" by (cases a)
    with Some that have "length gs = 2" using match_here_length[of "[(P, Star), (Q, One)]" xs gs rest] by simp
    then obtain g gs' where "gs = g # gs'" by (cases gs) auto
    with Some a show ?thesis by (simp add: grow_def)
  qed
  show ?case using Cons g[OF refl]
    by (auto simp: piece_def split: option.splits)
qed

lemma run_then_adjacent:
  "P x \<Longrightarrow> run_then P Q xs \<Longrightarrow> adjacent P Q (x # xs)"
proof (induction xs arbitrary: x)
  case Nil then show ?case by simp
next
  case (Cons y ys)
  then show ?case by (cases "Q y") auto
qed

lemma search_plus_one:
  "re_search [(P, Plus), (Q, One)] s \<noteq> None \<longleftrightarrow> adjacent P Q s"
proof (induction P Q s rule: adjacent.induct)
  case (1 P Q x y r)
  have g: "grow x m \<noteq> None \<longleftrightarrow> m \<noteq> None" if "m = match_here [(P, Star), (Q, One)] (y # r)" for m
  proof (cases m)
    case None then show ?thesis by (simp add: grow_def)
  next
    case (Some a)
    obtain gs rest where a: "a = (gs, rest)" by (cases a)
    with Some that have "length gs = 2" using match_here_length[of "[(P, Star), (Q, One)]" "y # r" gs rest] by simp
    then obtain g gs' where "gs = g # gs'" by (cases gs) auto
    with Some a show ?thesis by (simp add: grow_def)
  qed
  have m: "match_here [(P, Plus), (Q, One)] (x # y # r) \<noteq> None \<longleftrightarrow> P x \<and> run_then P Q (y # r)"
    using g[OF refl] match_star_one[of P Q "y # r"] by (simp del: match_here.simps(7) run_then.simps)
  show ?case
  proof (cases "match_here [(P, Plus), (Q, One)] (x # y # r)")
    case None
    with m have n: "\<not> (P x \<and> run_then P Q (y # r))" by simp
    then have "\<not> (P x \<and> Q y)" by auto
    with None 1 show ?thesis by (auto simp del: match_here.simps split: option.splits)
  next
    case (Some a)
    with m have "P x \<and> run_then P Q (y # r)" by simp
    then have "adjacent P Q (x # y # r)" using run_then_adjacent by blast
    with Some show ?thesis by (auto simp del: match_here.simps adjacent.simps split: prod.splits)
  qed
next
  case (2 P Q x) show ?case by (simp add: piece_def grow_def)
next
  case (3 P Q) show ?case by simp
qed

section \<open>Facts about the classifier\<close>


lemma one_of_dot [simp]: "one_of (asc ''.'') c \<longleftrightarrow> c = 0x2E"
  by (auto simp: one_of_def asc_def)


lemma has_bullet_points_iff:
  "has_bullet_points s \<longleftrightarrow>
     (\<exists>u c w v. s = u @ c # w # v \<and> c \<in> set bullet_chars \<and> is_space w)"
  unfolding has_bullet_points_def pat_bullet_space_def search_one_one adjacent_iff one_of_def
  by auto





















section \<open>Facts about splitting and the introduction\<close>

lemma split_from_no_sep:
  "c \<notin> set acc \<Longrightarrow> p \<in> set (split_from [c] acc s) \<Longrightarrow> c \<notin> set p"
proof (induction "[c]" acc s arbitrary: p rule: split_from.induct)
  case (1 acc s)
  show ?case
  proof (cases "s = []")
    case True
    with 1(3,4) show ?thesis by (simp add: split_from.simps[of "[c]" acc "[]"])
  next
    case False
    then obtain x xs where s: "s = x # xs" by (cases s) auto
    show ?thesis
    proof (cases "x = c")
      case True
      with s have pre: "prefix [c] s" by simp
      with 1(4) s True have "p = rev acc \<or> p \<in> set (split_from [c] [] xs)"
        by (simp add: split_from.simps[of "[c]" acc "c # xs"])
      then show ?thesis
      proof
        assume "p = rev acc" with 1(3) show ?thesis by simp
      next
        assume "p \<in> set (split_from [c] [] xs)"
        with 1(1)[of p] False pre s show ?thesis by simp
      qed
    next
      case False
      with s have npre: "\<not> prefix [c] s" by simp
      with 1(4) s False have "p \<in> set (split_from [c] (x # acc) xs)"
        by (simp add: split_from.simps[of "[c]" acc "x # xs"])
      with 1(2)[of p] npre s False 1(3) show ?thesis by simp
    qed
  qed
qed

lemma search_number_dot_needs_dot:
  "0x2E \<notin> set s \<Longrightarrow> re_search pat_number_dot s = None"
proof -
  assume n: "0x2E \<notin> set s"
  have "\<not> adjacent is_digit (one_of (asc ''.'')) s"
  proof
    assume "adjacent is_digit (one_of (asc ''.'')) s"
    then obtain u x y v where "s = u @ x # y # v" "one_of (asc ''.'') y"
      unfolding adjacent_iff by blast
    with n show False by simp
  qed
  with search_plus_one[of is_digit "one_of (asc ''.'')" s] show ?thesis
    unfolding pat_number_dot_def by blast
qed

lemma intro_parts_no_dot:
  "\<forall>p\<in>set ps. 0x2E \<notin> set p \<Longrightarrow> intro_parts ps = map py_strip ps"
  by (induction ps) (simp_all add: search_number_dot_needs_dot)

text \<open>
  The loop of \<open>_get_recommendation_intro\<close> never reaches its \<open>break\<close>: a piece of
  \<open>response.split('.')\<close> holds no period, and the pattern \<open>\<backslash>d+\<backslash>.\<close> needs one.
\<close>

lemma intro_parts_split:
  "intro_parts (py_split s (asc ''.'')) = map py_strip (py_split s (asc ''.''))"
proof (rule intro_parts_no_dot, rule ballI)
  fix p assume "p \<in> set (py_split s (asc ''.''))"
  then have "p \<in> set (split_from [0x2E] [] s)" by (simp add: py_split_def asc_def)
  then show "0x2E \<notin> set p" using split_from_no_sep[of "0x2E" "[]" p s] by simp
qed

section \<open>Facts about normalization\<close>

lemma match_star_only: "\<exists>g rest. match_here [(P, Star)] s = Some ([g], rest)"
  by (induction s) (auto simp: piece_def grow_def)

lemma match_plus_only_None: "match_here [(P, Plus)] (x # xs) = None \<Longrightarrow> \<not> P x"
  using match_star_only[of P xs] by (auto simp: grow_def)

lemma match_plus_only_Some:
  "match_here [(P, Plus)] s = Some (gs, rest) \<Longrightarrow> concat gs \<noteq> []"
  by (cases s) (auto simp: grow_def split: if_splits option.splits prod.splits list.splits)

lemma search_plus_only_None:
  "re_search [(P, Plus)] s = None \<Longrightarrow> \<forall>c\<in>set s. \<not> P c"
proof (induction s)
  case Nil
  show ?case by simp
next
  case (Cons x xs)
  from Cons.prems have m: "match_here [(P, Plus)] (x # xs) = None"
    by (auto simp del: match_here.simps split: option.splits)
  with Cons.prems have "re_search [(P, Plus)] xs = None"
    by (auto simp del: match_here.simps split: option.splits)
  with Cons.IH match_plus_only_None[OF m] show ?case by simp
qed

lemma search_plus_only_Some:
  "re_search [(P, Plus)] s = Some (before, gs, rest) \<Longrightarrow>
     (\<forall>c\<in>set before. \<not> P c) \<and> concat gs \<noteq> []"
proof (induction s arbitrary: before)
  case Nil
  then show ?case by simp
next
  case (Cons x xs)
  show ?case
  proof (cases "match_here [(P, Plus)] (x # xs)")
    case None
    with Cons.prems obtain b where b: "re_search [(P, Plus)] xs = Some (b, gs, rest)" "before = x # b"
      by (auto simp del: match_here.simps split: option.splits)
    with Cons.IH[of b] match_plus_only_None[OF None] show ?thesis by simp
  next
    case (Some a)
    with Cons.prems have "before = []" "match_here [(P, Plus)] (x # xs) = Some (gs, rest)"
      by (auto simp del: match_here.simps split: prod.splits)
    with match_plus_only_Some[of P "x # xs" gs rest] show ?thesis by simp
  qed
qed

text \<open>After \<open>re.sub(r'\<backslash>s+', ' ', ...)\<close> the only white space left is the space.\<close>

lemma re_sub_spaces:
  "c \<in> set (re_sub pat_spaces (asc '' '') s) \<Longrightarrow> is_space c \<Longrightarrow> c = 32"
proof (induction pat_spaces "asc '' ''" s rule: re_sub.induct)
  case (1 s)
  show ?case
  proof (cases "re_search pat_spaces s")
    case None
    then have "\<forall>c\<in>set s. \<not> is_space c"
      using search_plus_only_None[of is_space s] by (simp add: pat_spaces_def)
    moreover from None have "re_sub pat_spaces (asc '' '') s = s"
      by (simp add: re_sub.simps[of pat_spaces "asc '' ''" s])
    ultimately show ?thesis using 1(2,3) by simp
  next
    case (Some a)
    obtain before gs rest where a: "a = (before, gs, rest)" by (cases a)
    with Some have p: "(\<forall>c\<in>set before. \<not> is_space c) \<and> concat gs \<noteq> []"
      using search_plus_only_Some[of is_space s before gs rest] by (simp add: pat_spaces_def)
    from p have ne: "concat gs \<noteq> []" by blast
    with Some a have "re_sub pat_spaces (asc '' '') s =
        before @ asc '' '' @ re_sub pat_spaces (asc '' '') rest"
      by (simp add: re_sub.simps[of pat_spaces "asc '' ''" s] del: concat_eq_Nil_conv)
    with 1(2) have "c \<in> set before \<or> c = 32 \<or> c \<in> set (re_sub pat_spaces (asc '' '') rest)"
      by (auto simp: asc_def)
    with p 1(3) 1(1)[OF Some a[symmetric] refl ne] show ?thesis
      by auto
  qed
qed

lemma py_replace_delete_subset: "set (py_replace s old []) \<subseteq> set s"
proof (induction s old "[] :: ustr" rule: py_replace.induct)
  case (1 s old)
  note u = py_replace.simps[of s old "[]"]
  show ?case
  proof (cases "old = []")
    case True
    then have "py_replace s old [] = concat (map (\<lambda>c. [c]) s)" by (subst u) simp
    then show ?thesis by simp
  next
    case o: False
    show ?thesis
    proof (cases "s = []")
      case True
      with o have "py_replace s old [] = []" by (subst u) simp
      then show ?thesis by simp
    next
      case s: False
      show ?thesis
      proof (cases "prefix old s")
        case True
        with o s have e: "py_replace s old [] = py_replace (drop (length old) s) old []"
          by (subst u) simp
        from o s True have "set (py_replace (drop (length old) s) old []) \<subseteq> set (drop (length old) s)"
          by (rule 1(1))
        moreover have "set (drop (length old) s) \<subseteq> set s" by (rule set_drop_subset)
        ultimately show ?thesis unfolding e by (rule subset_trans)
      next
        case False
        with o s have e: "py_replace s old [] = hd s # py_replace (tl s) old []"
          by (subst u) simp
        from o s False have "set (py_replace (tl s) old []) \<subseteq> set (tl s)"
          by (rule 1(2))
        moreover from s have "set s = insert (hd s) (set (tl s))" by (cases s) simp_all
        ultimately show ?thesis unfolding e by auto
      qed
    qed
  qed
qed

lemma py_strip_subset: "set (py_strip s) \<subseteq> set s"
proof -
  have "set (dropWhile is_space (rev (dropWhile is_space s))) \<subseteq> set (rev (dropWhile is_space s))"
    by (rule set_dropWhileD[THEN subsetI])
  moreover have "set (dropWhile is_space s) \<subseteq> set s"
    by (rule set_dropWhileD[THEN subsetI])
  ultimately show ?thesis by (auto simp: py_strip_def)
qed

lemma clean_response_no_newline: "10 \<notin> set (clean_response raw)"
proof
  assume "10 \<in> set (clean_response raw)"
  then have "10 \<in> set (re_sub pat_spaces (asc '' '') (py_strip raw))"
    using py_replace_delete_subset unfolding clean_response_def Let_def by blast
  moreover have "is_space 10" by (simp add: is_space_def)
  ultimately show False using re_sub_spaces[of 10 "py_strip raw"] by simp
qed

lemma split_from_absent:
  "c \<notin> set s \<Longrightarrow> split_from (c # cs) acc s = [rev acc @ s]"
proof (induction s arbitrary: acc)
  case Nil
  show ?case by (simp add: split_from.simps[of "c # cs" acc "[]"])
next
  case (Cons x xs)
  then have "\<not> prefix (c # cs) (x # xs)" by auto
  with Cons show ?case by (simp add: split_from.simps[of "c # cs" acc "x # xs"])
qed

lemma py_split_no_newline:
  "10 \<notin> set s \<Longrightarrow> py_split s (asc ''\<newline>\<newline>'') = [s]"
  "10 \<notin> set s \<Longrightarrow> py_split s (asc ''\<newline>'') = [s]"
  using split_from_absent[of 10 s "[10]" "[]"] split_from_absent[of 10 s "[]" "[]"]
  by (simp_all add: py_split_def asc_def)

section \<open>The claims about the classifier\<close>


text \<open>
  C5, as the code has it. The bullet detector of the classifier fires exactly when a
  dash, a bullet or an asterisk is followed at once by a white-space code point,
  anywhere in the text.
\<close>

theorem bullet_detector_anywhere:
  "has_bullet_points s \<longleftrightarrow>
     (\<exists>u c w v. s = u @ c # w # v \<and> c \<in> set bullet_chars \<and> is_space w)"
  by (rule has_bullet_points_iff)

text \<open>
  C5 as stated fails: in \<open>a - b\<close> no line begins with a marker, and the detector fires.
\<close>

theorem bullet_detector_counterexample:
  "has_bullet_points (asc ''a - b'') \<and> \<not> spec_bullet_line (asc ''a - b'')"
  by (simp add: has_bullet_points_def spec_bullet_line_def re_search_bol_def pat_bullet_space_def
      py_split_def asc_def one_of_def bullet_chars_def is_space_def piece_def split_from.simps)



section \<open>The claims about extraction and the introduction\<close>

text \<open>
  C2, at the input of the claim (the two items on two lines). The extractor yields two
  records in order, named \<open>Phone A\<close> and \<open>Phone B\<close>, with the prices of the claim; the
  rating of the first record is empty, not \<open>4.5\<close>: the item pattern stops the content at
  the period of \<open>4.5\<close>, before \<open>/5\<close>.
\<close>

theorem extract_products_loses_decimal_rating:
  "extract_products
     (asc ''1. Phone A - '' @ [0x20B9] @ asc ''20,000 4.5/5\<newline>2. Phone B - $300'') =
   [\<lparr>name = asc ''Phone A'', price = [0x20B9] @ asc ''20,000'', rating = [],
      description = asc ''Phone A - '' @ [0x20B9] @ asc ''20,000 4''\<rparr>,
    \<lparr>name = asc ''Phone B'', price = asc ''$300'', rating = [],
      description = asc ''Phone B - $300''\<rparr>]"
  by (simp add: extract_products_def extract_product_def List.map_filter_def
      pat_item_def pat_price_def pat_rating_def one_of_def none_of_def currency_chars_def
      asc_def is_space_def is_digit_def digit_value_def decimal_blocks_def
      py_strip_def py_split_def piece_def grow_def re_findall.simps split_from.simps)

text \<open>
  C3, at a text of the product path. The introduction is not the sentence before the
  first numbered item: it is the whole text, each piece trimmed and joined again.
\<close>

theorem intro_runs_past_first_marker:
  "is_product_recommendation (asc ''Top phones. 1. Phone A. 2. Phone B'') \<and>
   extract_products (asc ''Top phones. 1. Phone A. 2. Phone B'') \<noteq> [] \<and>
   get_recommendation_intro (asc ''Top phones. 1. Phone A. 2. Phone B'') =
     asc ''Top phones. 1. Phone A. 2. Phone B.''"
proof (intro conjI)
  show "is_product_recommendation (asc ''Top phones. 1. Phone A. 2. Phone B'')"
    by (simp add: is_product_recommendation_def py_lower_def lower_cp_def asc_def
        product_keywords_def brand_keywords_def recommendation_words_def
        has_numbered_list_def has_bullet_points_def pat_number_dot_def pat_bullet_space_def
        one_of_def bullet_chars_def is_space_def is_digit_def digit_value_def piece_def grow_def)
  show "extract_products (asc ''Top phones. 1. Phone A. 2. Phone B'') \<noteq> []"
    by (simp add: extract_products_def extract_product_def List.map_filter_def
      pat_item_def pat_price_def pat_rating_def one_of_def none_of_def currency_chars_def
      asc_def is_space_def is_digit_def digit_value_def decimal_blocks_def
      py_strip_def py_split_def piece_def grow_def re_findall.simps split_from.simps)
  show "get_recommendation_intro (asc ''Top phones. 1. Phone A. 2. Phone B'') =
     asc ''Top phones. 1. Phone A. 2. Phone B.''"
    by code_simp
qed

end
